theory Spec2Isabelle
  imports Main "HOL-Library.Word" "HOL-Library.Sublist"
begin

section \<open>JavaScript values\<close>

text \<open>
  A JavaScript string is a sequence of 16-bit code units; \<open>length\<close> counts them and
  \<open>trim\<close> looks at them one by one.
\<close>

type_synonym jsstring = "16 word list"

definition utf16 :: "string \<Rightarrow> jsstring" where
  "utf16 s = map of_char s"

text \<open>
  The values a parsed JSON payload can hold, as far as the evaluator observes them: it
  tests truthiness and calls \<open>trim\<close>. \<open>JUndefined\<close> is an absent property. Of a
  number only whether it is zero is observed, so integers stand for all of them; objects
  and arrays are opaque (\<open>JObj\<close>): they are truthy and are not strings.
\<close>

datatype jsval =
    JUndefined
  | JNull
  | JBool bool
  | JNum int
  | JStr jsstring
  | JObj

datatype error = TypeError | BackendUnavailable

text \<open>ToBoolean.\<close>

fun truthy :: "jsval \<Rightarrow> bool" where
  "truthy JUndefined = False"
| "truthy JNull = False"
| "truthy (JBool b) = b"
| "truthy (JNum n) = (n \<noteq> 0)"
| "truthy (JStr s) = (s \<noteq> [])"
| "truthy JObj = True"

text \<open>\<open>a || b\<close>: the first operand when it is truthy, the second otherwise.\<close>

definition or_js :: "jsval \<Rightarrow> jsval \<Rightarrow> jsval" where
  "or_js a b = (if truthy a then a else b)"

text \<open>
  The code units \<open>String.prototype.trim\<close> strips: ECMAScript's WhiteSpace and
  LineTerminator productions.
\<close>

definition isWhiteSpace :: "16 word \<Rightarrow> bool" where
  "isWhiteSpace c =
     (c = 0x0009 \<or> c = 0x000A \<or> c = 0x000B \<or> c = 0x000C \<or> c = 0x000D \<or> c = 0x0020
      \<or> c = 0x00A0 \<or> c = 0x1680 \<or> (0x2000 \<le> c \<and> c \<le> 0x200A)
      \<or> c = 0x2028 \<or> c = 0x2029 \<or> c = 0x202F \<or> c = 0x205F \<or> c = 0x3000 \<or> c = 0xFEFF)"

definition trim :: "jsstring \<Rightarrow> jsstring" where
  "trim s = rev (dropWhile isWhiteSpace (rev (dropWhile isWhiteSpace s)))"

text \<open>
  \<open>Array.prototype.filter\<close> with a callback that may throw: the elements are visited in
  order, and the first exception ends the call.
\<close>

fun filter_js :: "('a \<Rightarrow> error + bool) \<Rightarrow> 'a list \<Rightarrow> error + 'a list" where
  "filter_js p [] = Inr []"
| "filter_js p (x # xs) =
     (case p x of
        Inl e \<Rightarrow> Inl e
      | Inr b \<Rightarrow>
          (case filter_js p xs of
             Inl e \<Rightarrow> Inl e
           | Inr ys \<Rightarrow> Inr (if b then x # ys else ys)))"

section \<open>The validation filter of the handler\<close>

text \<open>
  An element of the array \<open>generateObjectArray\<close> returns (\<open>any[]\<close>): an object with
  the six properties the extraction prompt asks for, none of them sure to be there or to
  have the type asked for.
\<close>

record candidate =
  recommender :: jsval
  ticker :: jsval
  contractAddress :: jsval
  type' :: jsval
  conviction :: jsval
  alreadyKnown :: jsval

text \<open>
  The callback of the filter:
  \<^verbatim>\<open>!rec.alreadyKnown && (rec.ticker || rec.contractAddress) && rec.recommender
    && rec.conviction && rec.recommender.trim() !== ""\<close>.
  The operands are evaluated left to right and the first falsy one decides. The last
  operand calls \<open>trim\<close> on the recommender, which only a string has: on any other
  truthy value the call throws a TypeError.
\<close>

definition keepRecommendation :: "candidate \<Rightarrow> error + bool" where
  "keepRecommendation rec =
     (if \<not> (\<not> truthy (alreadyKnown rec)) then Inr False
      else if \<not> truthy (or_js (ticker rec) (contractAddress rec)) then Inr False
      else if \<not> truthy (recommender rec) then Inr False
      else if \<not> truthy (conviction rec) then Inr False
      else (case recommender rec of
              JStr s \<Rightarrow> Inr (trim s \<noteq> [])
            | _ \<Rightarrow> Inl TypeError))"

definition filteredRecommendations :: "candidate list \<Rightarrow> error + candidate list" where
  "filteredRecommendations recommendations = filter_js keepRecommendation recommendations"

section \<open>The history formatter\<close>

text \<open>
  \<open>Memory\<close> and \<open>Content\<close> as the core package declares them, with the fields the
  evaluator reads. \<open>Content\<close> has a required \<open>text\<close> and an index signature; its
  dynamic property \<open>content\<close>, which a recommendation memory uses for its free text, is
  a string or is absent.
\<close>

type_synonym uuid = jsstring

record Content =
  text' :: jsstring
  content' :: "jsstring option"

record Memory =
  userId :: uuid
  agentId :: uuid
  roomId :: uuid
  content :: Content

text \<open>
  The template literal \<^verbatim>\<open>`${(rec.content as Content)?.content}`\<close>: the string itself,
  and \<open>undefined\<close> spelled out when the property is absent.
\<close>

definition messageString :: "Memory \<Rightarrow> jsstring" where
  "messageString rec =
     (case content' (content rec) of
        None \<Rightarrow> utf16 ''undefined''
      | Some s \<Rightarrow> s)"

text \<open>\<open>Array.prototype.join\<close> on an array of strings.\<close>

fun join_js :: "jsstring \<Rightarrow> jsstring list \<Rightarrow> jsstring" where
  "join_js sep [] = []"
| "join_js sep [x] = x"
| "join_js sep (x # y # ys) = x @ sep @ join_js sep (y # ys)"

text \<open>
  \<open>Array.prototype.reverse\<close> reverses the array it is called on, in place, and returns
  that same array. The array is the caller's, so the model passes its contents through:
  \<open>formatRecommendations\<close> takes the contents of the argument before the call and
  returns its contents after the call together with the string.
\<close>

definition formatRecommendations :: "Memory list \<Rightarrow> Memory list \<times> jsstring" where
  "formatRecommendations recommendations =
     (let reversed = rev recommendations;
          messageStrings = map messageString reversed;
          finalMessageStrings = join_js (utf16 ''\<newline>'') messageStrings
      in (reversed, finalMessageStrings))"

section \<open>The evaluator\<close>

text \<open>
  The state \<open>composeState\<close> builds, with the two fields the handler reads and the one it
  adds; the templates are named, their text is data.
\<close>

record State =
  stateAgentId :: uuid
  stateRoomId :: uuid
  recentRecommendations :: "jsstring option"

datatype template = shouldProcessTemplate | recommendationTemplate

datatype ModelClass = SMALL | LARGE

text \<open>
  What the handler calls outside this file: the runtime's \<open>composeState\<close> and
  \<open>getSetting\<close> (a string or null), the core's \<open>composeContext\<close>,
  \<open>generateTrueOrFalse\<close> and \<open>generateObjectArray\<close>, and the memory manager's
  \<open>getMemories\<close> (table, room, count). The two generative calls can fail, and the
  failure is the handler's; \<open>generateObjectArray\<close> can also answer null (\<open>None\<close>).
\<close>

record IAgentRuntime =
  composeState :: "Memory \<Rightarrow> State"
  getSetting :: "jsstring \<Rightarrow> jsval"
  composeContext :: "State \<Rightarrow> template \<Rightarrow> jsstring"
  generateTrueOrFalse :: "jsstring \<Rightarrow> ModelClass \<Rightarrow> error + bool"
  getMemories :: "jsstring \<Rightarrow> uuid \<Rightarrow> nat \<Rightarrow> Memory list"
  generateObjectArray :: "jsstring \<Rightarrow> ModelClass \<Rightarrow> error + candidate list option"

text \<open>The calls a run of the handler makes, in order.\<close>

datatype call =
    ComposeState Memory
  | GetSetting jsstring
  | GenerateTrueOrFalse jsstring ModelClass
  | GetMemories jsstring uuid nat
  | GenerateObjectArray jsstring ModelClass

text \<open>
  The handler returns the calls it made and its result: the array it resolves to, or the
  exception it rejects with. Logging is left out.
\<close>

definition handler :: "IAgentRuntime \<Rightarrow> Memory \<Rightarrow> call list \<times> (error + candidate list)" where
  "handler runtime message =
     (let state = composeState runtime message;
          calls1 = [ComposeState message, GetSetting (utf16 ''POSTGRES_URL'')]
      in
      if truthy (getSetting runtime (utf16 ''POSTGRES_URL'')) then (calls1, Inr [])
      else
        let shouldProcessContext = composeContext runtime state shouldProcessTemplate;
            calls2 = calls1 @ [GenerateTrueOrFalse shouldProcessContext SMALL]
        in
        (case generateTrueOrFalse runtime shouldProcessContext SMALL of
           Inl e \<Rightarrow> (calls2, Inl e)
         | Inr shouldProcess \<Rightarrow>
             if \<not> shouldProcess then (calls2, Inr [])
             else
               let recentRecommendations' =
                     getMemories runtime (utf16 ''recommendations'') (stateRoomId state) 20;
                   calls3 = calls2 @ [GetMemories (utf16 ''recommendations'') (stateRoomId state) 20];
                   context = composeContext runtime
                     (state\<lparr>recentRecommendations :=
                        Some (snd (formatRecommendations recentRecommendations'))\<rparr>)
                     recommendationTemplate;
                   calls4 = calls3 @ [GenerateObjectArray context LARGE]
               in
               (case generateObjectArray runtime context LARGE of
                  Inl e \<Rightarrow> (calls4, Inl e)
                | Inr None \<Rightarrow> (calls4, Inr [])
                | Inr (Some recommendations) \<Rightarrow>
                    (calls4, filteredRecommendations recommendations))))"

text \<open>\<open>tradeEvaluator.validate\<close>.\<close>

definition validate :: "IAgentRuntime \<Rightarrow> Memory \<Rightarrow> bool" where
  "validate runtime message =
     (if length (text' (content message)) < 5 then False
      else userId message \<noteq> agentId message)"

text \<open>
  The two prompts of a run, named after the handler's variables: the one the gate is
  asked with, and the one extraction is asked with, which holds the formatted history.
\<close>

definition shouldProcessContext :: "IAgentRuntime \<Rightarrow> Memory \<Rightarrow> jsstring" where
  "shouldProcessContext runtime message =
     composeContext runtime (composeState runtime message) shouldProcessTemplate"

definition recommendationContext :: "IAgentRuntime \<Rightarrow> Memory \<Rightarrow> jsstring" where
  "recommendationContext runtime message =
     (let state = composeState runtime message;
          recentRecommendations' =
            getMemories runtime (utf16 ''recommendations'') (stateRoomId state) 20
      in composeContext runtime
           (state\<lparr>recentRecommendations :=
              Some (snd (formatRecommendations recentRecommendations'))\<rparr>)
           recommendationTemplate)"

section \<open>Example inputs\<close>

text \<open>
  A runtime whose collaborators answer with fixed values: the \<open>POSTGRES_URL\<close> setting,
  the gate's answer, the stored recommendation memories and the extractor's answer.
\<close>

definition runtimeDouble ::
  "jsval \<Rightarrow> error + bool \<Rightarrow> Memory list \<Rightarrow> error + candidate list option \<Rightarrow> IAgentRuntime" where
  "runtimeDouble postgresUrl gate stored extracted =
     \<lparr>composeState = (\<lambda>m. \<lparr>stateAgentId = agentId m, stateRoomId = roomId m,
                              recentRecommendations = None\<rparr>),
      getSetting = (\<lambda>key. if key = utf16 ''POSTGRES_URL'' then postgresUrl else JNull),
      composeContext = (\<lambda>st t. case t of
                           shouldProcessTemplate \<Rightarrow> utf16 ''gate''
                         | recommendationTemplate \<Rightarrow>
                             (case recentRecommendations st of None \<Rightarrow> [] | Some h \<Rightarrow> h)),
      generateTrueOrFalse = (\<lambda>ctx modelClass. gate),
      getMemories = (\<lambda>tableName room n. take n stored),
      generateObjectArray = (\<lambda>ctx modelClass. extracted)\<rparr>"

definition exampleMessage :: Memory where
  "exampleMessage =
     \<lparr>userId = utf16 ''user1'', agentId = utf16 ''agent'', roomId = utf16 ''room'',
      content = \<lparr>text' = utf16 ''$ROULETTE is going to send it soon'', content' = None\<rparr>\<rparr>"

definition shortMessage :: Memory where
  "shortMessage =
     \<lparr>userId = utf16 ''user1'', agentId = utf16 ''agent'', roomId = utf16 ''room'',
      content = \<lparr>text' = utf16 ''gm'', content' = None\<rparr>\<rparr>"

definition ownMessage :: Memory where
  "ownMessage =
     \<lparr>userId = utf16 ''agent'', agentId = utf16 ''agent'', roomId = utf16 ''room'',
      content = \<lparr>text' = utf16 ''$ROULETTE is going to send it soon'', content' = None\<rparr>\<rparr>"

text \<open>Three stored recommendation memories with the texts A, B and C.\<close>

definition storedMemory :: "string \<Rightarrow> Memory" where
  "storedMemory t =
     \<lparr>userId = utf16 ''user1'', agentId = utf16 ''agent'', roomId = utf16 ''room'',
      content = \<lparr>text' = [], content' = Some (utf16 t)\<rparr>\<rparr>"

text \<open>Candidates taken from the examples the evaluator ships with.\<close>

definition rouletteCandidate :: candidate where
  "rouletteCandidate =
     \<lparr>recommender = JStr (utf16 ''user1''),
      ticker = JStr (utf16 ''ROULETTE''),
      contractAddress = JStr (utf16 ''48vV5y4DRH1Adr1bpvSgFWYCjLLPtHYBqUSwNc2cmCK2''),
      type' = JStr (utf16 ''buy''),
      conviction = JStr (utf16 ''high''),
      alreadyKnown = JBool False\<rparr>"

definition samoyedBuy :: candidate where
  "samoyedBuy =
     \<lparr>recommender = JStr (utf16 ''user2''),
      ticker = JStr (utf16 ''SAMOYED''),
      contractAddress = JStr (utf16 ''5TQwHyZbedaH4Pcthj1Hxf5GqcigL6qWuB7YEsBtqvhr''),
      type' = JStr (utf16 ''buy''),
      conviction = JStr (utf16 ''medium''),
      alreadyKnown = JBool False\<rparr>"

definition samoyedDontBuy :: candidate where
  "samoyedDontBuy =
     \<lparr>recommender = JStr (utf16 ''user1''),
      ticker = JStr (utf16 ''SAMOYED''),
      contractAddress = JStr (utf16 ''5TQwHyZbedaH4Pcthj1Hxf5GqcigL6qWuB7YEsBtqvhr''),
      type' = JStr (utf16 ''dont_buy''),
      conviction = JStr (utf16 ''high''),
      alreadyKnown = JBool False\<rparr>"

text \<open>The same recommendation as \<open>rouletteCandidate\<close>, its recommender given as a number.\<close>

definition numericRecommender :: candidate where
  "numericRecommender = rouletteCandidate\<lparr>recommender := JNum 42\<rparr>"


section \<open>Facts about the library operations\<close>

lemma filter_js_Inr:
  "filter_js p xs = Inr ys \<Longrightarrow> ys = filter (\<lambda>x. p x = Inr True) xs"
proof (induction xs arbitrary: ys)
  case Nil
  then show ?case by simp
next
  case (Cons x xs)
  then show ?case
    by (auto split: sum.splits if_splits)
qed

lemma filter_js_total:
  "\<forall>x \<in> set xs. \<exists>b. p x = Inr b \<Longrightarrow>
     filter_js p xs = Inr (filter (\<lambda>x. p x = Inr True) xs)"
  by (induction xs) auto

lemma filter_js_throws:
  "x \<in> set xs \<Longrightarrow> p x = Inl e \<Longrightarrow> \<exists>e'. filter_js p xs = Inl e'"
proof (induction xs)
  case Nil
  then show ?case by simp
next
  case (Cons y ys)
  show ?case
  proof (cases "p y")
    case (Inl a)
    then show ?thesis by simp
  next
    case (Inr b)
    with Cons.prems have "x \<in> set ys" by auto
    with Cons.IH Cons.prems(2) obtain e' where "filter_js p ys = Inl e'" by blast
    with Inr show ?thesis by simp
  qed
qed

lemma join_js_snoc:
  "join_js sep (xs @ [x]) = (if xs = [] then x else join_js sep xs @ sep @ x)"
  by (induction sep xs rule: join_js.induct) auto

section \<open>Properties of validate\<close>

text \<open>
  Claim C7. \<open>validate\<close> answers false for a message whose text has fewer than 5
  characters (code units), false for a message the agent wrote itself
  (\<open>userId = agentId\<close>), and true for every other message.
\<close>

theorem validate_applicable:
  "(length (text' (content message)) < 5 \<longrightarrow> \<not> validate runtime message)
   \<and> (userId message = agentId message \<longrightarrow> \<not> validate runtime message)
   \<and> (5 \<le> length (text' (content message)) \<and> userId message \<noteq> agentId message
        \<longrightarrow> validate runtime message)"
  by (simp add: validate_def)

theorem validate_applicable_witness:
  "length (text' (content shortMessage)) < 5
   \<and> \<not> validate (runtimeDouble JNull (Inr True) [] (Inr None)) shortMessage
   \<and> userId ownMessage = agentId ownMessage
   \<and> \<not> validate (runtimeDouble JNull (Inr True) [] (Inr None)) ownMessage
   \<and> 5 \<le> length (text' (content exampleMessage))
   \<and> userId exampleMessage \<noteq> agentId exampleMessage
   \<and> validate (runtimeDouble JNull (Inr True) [] (Inr None)) exampleMessage"
  using validate_applicable [of shortMessage "runtimeDouble JNull (Inr True) [] (Inr None)"]
    validate_applicable [of ownMessage "runtimeDouble JNull (Inr True) [] (Inr None)"]
    validate_applicable [of exampleMessage "runtimeDouble JNull (Inr True) [] (Inr None)"]
  by (simp add: shortMessage_def ownMessage_def exampleMessage_def utf16_def)

section \<open>Properties of the handler\<close>

text \<open>
  Claim C3. When the \<open>POSTGRES_URL\<close> setting is set (truthy), the handler returns the
  empty list for every message, and the only calls it has made are \<open>composeState\<close> and
  \<open>getSetting\<close>: neither the gate nor the extractor is invoked, and the run is the same
  whatever the two would have answered.
\<close>

theorem postgres_setting_skips_pipeline:
  assumes "truthy (getSetting runtime (utf16 ''POSTGRES_URL''))"
  shows "handler runtime message =
           ([ComposeState message, GetSetting (utf16 ''POSTGRES_URL'')], Inr [])
         \<and> (\<forall>c m. GenerateTrueOrFalse c m \<notin> set (fst (handler runtime message)))
         \<and> (\<forall>c m. GenerateObjectArray c m \<notin> set (fst (handler runtime message)))
         \<and> (\<forall>f g. handler (runtime\<lparr>generateTrueOrFalse := f, generateObjectArray := g\<rparr>) message
                  = handler runtime message)"
  using assms by (simp add: handler_def Let_def)

theorem postgres_setting_skips_pipeline_witness:
  "truthy (getSetting (runtimeDouble (JStr (utf16 ''postgres://db'')) (Inr True) []
       (Inr (Some [rouletteCandidate]))) (utf16 ''POSTGRES_URL''))
   \<and> handler (runtimeDouble (JStr (utf16 ''postgres://db'')) (Inr True) []
        (Inr (Some [rouletteCandidate]))) exampleMessage =
           ([ComposeState exampleMessage, GetSetting (utf16 ''POSTGRES_URL'')], Inr [])"
proof -
  have set: "truthy (getSetting (runtimeDouble (JStr (utf16 ''postgres://db'')) (Inr True) []
      (Inr (Some [rouletteCandidate]))) (utf16 ''POSTGRES_URL''))"
    by (simp add: runtimeDouble_def utf16_def)
  from postgres_setting_skips_pipeline [OF set, of exampleMessage] set
  show ?thesis by blast
qed

text \<open>
  Claim C2. When the gate (\<open>generateTrueOrFalse\<close> on the should-process prompt) answers
  false, the handler returns the empty list and its calls hold no \<open>generateObjectArray\<close>:
  the extractor is not invoked, and the run is the same whatever it would have answered.
  When the gate answers true (and \<open>POSTGRES_URL\<close> is not set), the handler goes on to
  extraction: it calls \<open>generateObjectArray\<close> on the recommendation prompt.
\<close>

theorem gate_false_skips_extraction:
  "(generateTrueOrFalse runtime (shouldProcessContext runtime message) SMALL = Inr False \<longrightarrow>
      snd (handler runtime message) = Inr []
      \<and> (\<forall>c m. GenerateObjectArray c m \<notin> set (fst (handler runtime message)))
      \<and> (\<forall>g. handler (runtime\<lparr>generateObjectArray := g\<rparr>) message = handler runtime message))
   \<and> (\<not> truthy (getSetting runtime (utf16 ''POSTGRES_URL''))
       \<and> generateTrueOrFalse runtime (shouldProcessContext runtime message) SMALL = Inr True \<longrightarrow>
      GenerateObjectArray (recommendationContext runtime message) LARGE
        \<in> set (fst (handler runtime message)))"
  by (auto simp: handler_def Let_def shouldProcessContext_def recommendationContext_def
      split: sum.splits option.splits)

theorem gate_false_skips_extraction_witness:
  "generateTrueOrFalse (runtimeDouble JNull (Inr False) [] (Inr (Some [rouletteCandidate])))
       (shouldProcessContext (runtimeDouble JNull (Inr False) [] (Inr (Some [rouletteCandidate])))
          exampleMessage) SMALL = Inr False
   \<and> snd (handler (runtimeDouble JNull (Inr False) [] (Inr (Some [rouletteCandidate])))
        exampleMessage) = Inr []
   \<and> \<not> truthy (getSetting (runtimeDouble JNull (Inr True) [] (Inr (Some [rouletteCandidate])))
        (utf16 ''POSTGRES_URL''))
   \<and> generateTrueOrFalse (runtimeDouble JNull (Inr True) [] (Inr (Some [rouletteCandidate])))
       (shouldProcessContext (runtimeDouble JNull (Inr True) [] (Inr (Some [rouletteCandidate])))
          exampleMessage) SMALL = Inr True
   \<and> GenerateObjectArray
        (recommendationContext (runtimeDouble JNull (Inr True) [] (Inr (Some [rouletteCandidate])))
           exampleMessage) LARGE
        \<in> set (fst (handler (runtimeDouble JNull (Inr True) [] (Inr (Some [rouletteCandidate])))
                  exampleMessage))"
proof -
  let ?no = "runtimeDouble JNull (Inr False) [] (Inr (Some [rouletteCandidate]))"
  let ?yes = "runtimeDouble JNull (Inr True) [] (Inr (Some [rouletteCandidate]))"
  have no: "generateTrueOrFalse ?no (shouldProcessContext ?no exampleMessage) SMALL = Inr False"
    by (simp add: runtimeDouble_def)
  have unset: "\<not> truthy (getSetting ?yes (utf16 ''POSTGRES_URL''))"
    by (simp add: runtimeDouble_def)
  have yes: "generateTrueOrFalse ?yes (shouldProcessContext ?yes exampleMessage) SMALL = Inr True"
    by (simp add: runtimeDouble_def)
  from gate_false_skips_extraction [of ?no exampleMessage]
    gate_false_skips_extraction [of ?yes exampleMessage] no unset yes
  show ?thesis by blast
qed

lemma null_or_empty_extraction_returns_empty:
  assumes "\<not> truthy (getSetting runtime (utf16 ''POSTGRES_URL''))"
    and "generateTrueOrFalse runtime (shouldProcessContext runtime message) SMALL = Inr True"
    and "generateObjectArray runtime (recommendationContext runtime message) LARGE = Inr None
         \<or> generateObjectArray runtime (recommendationContext runtime message) LARGE = Inr (Some [])"
  shows "snd (handler runtime message) = Inr []"
  using assms
  by (auto simp: handler_def Let_def shouldProcessContext_def recommendationContext_def
      filteredRecommendations_def)

lemma handler_reaches_filter:
  assumes "\<not> truthy (getSetting runtime (utf16 ''POSTGRES_URL''))"
    and "generateTrueOrFalse runtime (shouldProcessContext runtime message) SMALL = Inr True"
    and "generateObjectArray runtime (recommendationContext runtime message) LARGE
           = Inr (Some recommendations)"
  shows "snd (handler runtime message) = filteredRecommendations recommendations"
  using assms
  by (simp add: handler_def Let_def shouldProcessContext_def recommendationContext_def)

lemma throwing_extraction_rejects:
  assumes "\<not> truthy (getSetting runtime (utf16 ''POSTGRES_URL''))"
    and "generateTrueOrFalse runtime (shouldProcessContext runtime message) SMALL = Inr True"
    and "generateObjectArray runtime (recommendationContext runtime message) LARGE
           = Inr (Some recommendations)"
    and "rec \<in> set recommendations"
    and "keepRecommendation rec = Inl e"
  shows "\<exists>e'. snd (handler runtime message) = Inl e'"
proof -
  from assms(4,5) have "\<exists>e'. filteredRecommendations recommendations = Inl e'"
    unfolding filteredRecommendations_def by (rule filter_js_throws)
  then show ?thesis
    unfolding handler_reaches_filter [OF assms(1-3)] .
qed


text \<open>
  Claim C9. For a message that passes the gate, the handler asks the memory store once,
  for the table \<open>recommendations\<close>, the room of the composed state and a count of 20,
  and it does so before the extraction call, whose prompt is built from the answer. The
  room is the message's room whenever \<open>composeState\<close> hands the message's \<open>roomId\<close> on.
\<close>

theorem recent_recommendations_request:
  assumes "\<not> truthy (getSetting runtime (utf16 ''POSTGRES_URL''))"
    and "generateTrueOrFalse runtime (shouldProcessContext runtime message) SMALL = Inr True"
  shows "fst (handler runtime message) =
           [ComposeState message,
            GetSetting (utf16 ''POSTGRES_URL''),
            GenerateTrueOrFalse (shouldProcessContext runtime message) SMALL,
            GetMemories (utf16 ''recommendations'') (stateRoomId (composeState runtime message)) 20,
            GenerateObjectArray (recommendationContext runtime message) LARGE]
         \<and> (\<forall>t r n. GetMemories t r n \<in> set (fst (handler runtime message)) \<longrightarrow>
               n \<le> 20 \<and> r = stateRoomId (composeState runtime message))
         \<and> (stateRoomId (composeState runtime message) = roomId message \<longrightarrow>
               GetMemories (utf16 ''recommendations'') (roomId message) 20
                 \<in> set (fst (handler runtime message)))"
proof -
  have calls: "fst (handler runtime message) =
           [ComposeState message,
            GetSetting (utf16 ''POSTGRES_URL''),
            GenerateTrueOrFalse (shouldProcessContext runtime message) SMALL,
            GetMemories (utf16 ''recommendations'') (stateRoomId (composeState runtime message)) 20,
            GenerateObjectArray (recommendationContext runtime message) LARGE]"
    using assms
    by (auto simp: handler_def Let_def shouldProcessContext_def recommendationContext_def
        split: sum.splits option.splits)
  show ?thesis
    unfolding calls by auto
qed

theorem recent_recommendations_request_witness:
  "\<not> truthy (getSetting (runtimeDouble JNull (Inr True) [] (Inr None)) (utf16 ''POSTGRES_URL''))
   \<and> generateTrueOrFalse (runtimeDouble JNull (Inr True) [] (Inr None))
       (shouldProcessContext (runtimeDouble JNull (Inr True) [] (Inr None)) exampleMessage) SMALL
       = Inr True
   \<and> stateRoomId (composeState (runtimeDouble JNull (Inr True) [] (Inr None)) exampleMessage)
       = roomId exampleMessage
   \<and> GetMemories (utf16 ''recommendations'') (roomId exampleMessage) 20
       \<in> set (fst (handler (runtimeDouble JNull (Inr True) [] (Inr None)) exampleMessage))"
proof -
  let ?rt = "runtimeDouble JNull (Inr True) [] (Inr None)"
  have unset: "\<not> truthy (getSetting ?rt (utf16 ''POSTGRES_URL''))"
    by (simp add: runtimeDouble_def)
  have gate: "generateTrueOrFalse ?rt (shouldProcessContext ?rt exampleMessage) SMALL = Inr True"
    by (simp add: runtimeDouble_def)
  have room: "stateRoomId (composeState ?rt exampleMessage) = roomId exampleMessage"
    by (simp add: runtimeDouble_def)
  from recent_recommendations_request [OF unset gate] unset gate room
  show ?thesis by blast
qed

section \<open>Properties of the history formatter\<close>

lemma formatRecommendations_argument:
  "fst (formatRecommendations recommendations) = rev recommendations"
  by (simp add: formatRecommendations_def Let_def)

lemma formatRecommendations_twice:
  "snd (formatRecommendations (fst (formatRecommendations recommendations))) =
     join_js (utf16 ''\<newline>'') (map messageString recommendations)"
  by (simp add: formatRecommendations_def Let_def)

text \<open>
  Claim C5. The string \<open>formatRecommendations\<close> returns is the texts of the memories in
  reversed order, joined with a newline: for the memories A, B, C in store order (newest
  first) it is the text of C, a newline, the text of B, a newline, the text of A, so each
  further newest memory adds its text at the end. For the empty sequence it is the empty
  string.
\<close>

theorem formatRecommendations_output:
  "snd (formatRecommendations recommendations) =
     join_js (utf16 ''\<newline>'') (map messageString (rev recommendations))
   \<and> snd (formatRecommendations (newest # older)) =
       (if older = [] then messageString newest
        else snd (formatRecommendations older) @ utf16 ''\<newline>'' @ messageString newest)
   \<and> snd (formatRecommendations [a, b, c]) =
       messageString c @ utf16 ''\<newline>'' @ messageString b @ utf16 ''\<newline>'' @ messageString a
   \<and> snd (formatRecommendations [storedMemory ''A'', storedMemory ''B'', storedMemory ''C'']) =
       utf16 ''C\<newline>B\<newline>A''
   \<and> snd (formatRecommendations []) = []"
  by (simp add: formatRecommendations_def Let_def join_js_snoc messageString_def
      storedMemory_def utf16_def)

text \<open>
  Claim C6 says that the formatter is pure: that repeated calls on the same sequence give
  the same string and that a call leaves the caller's sequence as it was. The code calls
  \<open>reverse\<close> on its argument, which reverses the caller's array in place. On an array
  holding A then B the first call returns B, newline, A and leaves the array holding B
  then A; a second call on that same array returns A, newline, B.
\<close>

theorem formatRecommendations_second_call_differs:
  "formatRecommendations [storedMemory ''A'', storedMemory ''B''] =
     ([storedMemory ''B'', storedMemory ''A''], utf16 ''B\<newline>A'')
   \<and> formatRecommendations (fst (formatRecommendations [storedMemory ''A'', storedMemory ''B''])) =
     ([storedMemory ''A'', storedMemory ''B''], utf16 ''A\<newline>B'')
   \<and> fst (formatRecommendations [storedMemory ''A'', storedMemory ''B''])
       \<noteq> [storedMemory ''A'', storedMemory ''B'']
   \<and> snd (formatRecommendations (fst (formatRecommendations [storedMemory ''A'', storedMemory ''B''])))
       \<noteq> snd (formatRecommendations [storedMemory ''A'', storedMemory ''B''])"
  by (simp add: formatRecommendations_def Let_def messageString_def storedMemory_def utf16_def)

section \<open>Properties of the validation filter\<close>

lemma trim_eq_Nil_iff: "trim s = [] \<longleftrightarrow> (\<forall>c \<in> set s. isWhiteSpace c)"
proof
  assume "trim s = []"
  then have all: "\<forall>c \<in> set (dropWhile isWhiteSpace s). isWhiteSpace c"
    by (simp add: trim_def)
  have "dropWhile isWhiteSpace s = []"
  proof (rule ccontr)
    assume ne: "dropWhile isWhiteSpace s \<noteq> []"
    then have "\<not> isWhiteSpace (hd (dropWhile isWhiteSpace s))"
      by (rule hd_dropWhile)
    moreover have "hd (dropWhile isWhiteSpace s) \<in> set (dropWhile isWhiteSpace s)"
      using ne by simp
    ultimately show False using all by blast
  qed
  then show "\<forall>c \<in> set s. isWhiteSpace c"
    by simp
next
  assume "\<forall>c \<in> set s. isWhiteSpace c"
  then show "trim s = []"
    by (auto simp: trim_def dest: set_dropWhileD)
qed

lemma keepRecommendation_string:
  "recommender rec = JStr s \<Longrightarrow>
     keepRecommendation rec =
       Inr (\<not> truthy (alreadyKnown rec)
            \<and> (truthy (ticker rec) \<or> truthy (contractAddress rec))
            \<and> (\<exists>c \<in> set s. \<not> isWhiteSpace c)
            \<and> truthy (conviction rec))"
  by (auto simp: keepRecommendation_def or_js_def trim_eq_Nil_iff)

lemma keepRecommendation_falsy:
  "\<not> truthy (recommender rec) \<Longrightarrow> keepRecommendation rec = Inr False"
  by (simp add: keepRecommendation_def)

lemma keepRecommendation_alreadyKnown:
  "truthy (alreadyKnown rec) \<Longrightarrow> keepRecommendation rec = Inr False"
  by (simp add: keepRecommendation_def)

lemma keepRecommendation_no_identifier:
  "\<not> truthy (ticker rec) \<Longrightarrow> \<not> truthy (contractAddress rec) \<Longrightarrow>
     keepRecommendation rec = Inr False"
  by (simp add: keepRecommendation_def or_js_def)

lemma filter_on_string_recommenders:
  assumes "\<forall>rec \<in> set recommendations. \<not> truthy (recommender rec) \<or> (\<exists>s. recommender rec = JStr s)"
  shows "filteredRecommendations recommendations =
           Inr (filter (\<lambda>rec. keepRecommendation rec = Inr True) recommendations)"
proof -
  have "\<forall>rec \<in> set recommendations. \<exists>b. keepRecommendation rec = Inr b"
    using assms keepRecommendation_string keepRecommendation_falsy by blast
  then show ?thesis
    unfolding filteredRecommendations_def by (rule filter_js_total)
qed
lemma keepRecommendation_throws:
  "keepRecommendation rec = Inl e \<longleftrightarrow>
     e = TypeError
     \<and> \<not> truthy (alreadyKnown rec)
     \<and> (truthy (ticker rec) \<or> truthy (contractAddress rec))
     \<and> truthy (recommender rec)
     \<and> truthy (conviction rec)
     \<and> (\<forall>s. recommender rec \<noteq> JStr s)"
  by (auto simp: keepRecommendation_def or_js_def split: jsval.splits)

text \<open>
  Claim C1 says that the filter keeps a candidate exactly when the four predicates hold
  and drops every other one silently. The callback calls \<open>trim\<close> on any truthy
  recommender. For a recommender that is a string, \<open>keepRecommendation_string\<close> gives
  the four predicates; for one that is truthy and not a string, such as the number 42,
  the call throws once the other three predicates hold: the filter and the handler fail
  with a TypeError, and the well-formed candidate beside it is lost with it.
\<close>

theorem non_string_recommender_throws:
  "keepRecommendation numericRecommender = Inl TypeError
   \<and> filteredRecommendations [rouletteCandidate, numericRecommender] = Inl TypeError
   \<and> handler (runtimeDouble JNull (Inr True) []
        (Inr (Some [rouletteCandidate, numericRecommender]))) exampleMessage =
       ([ComposeState exampleMessage,
         GetSetting (utf16 ''POSTGRES_URL''),
         GenerateTrueOrFalse (utf16 ''gate'') SMALL,
         GetMemories (utf16 ''recommendations'') (utf16 ''room'') 20,
         GenerateObjectArray [] LARGE],
        Inl TypeError)
   \<and> filteredRecommendations [rouletteCandidate, numericRecommender\<lparr>recommender := JStr (utf16 ''42'')\<rparr>]
       = Inr [rouletteCandidate, numericRecommender\<lparr>recommender := JStr (utf16 ''42'')\<rparr>]"
  by (simp add: handler_def Let_def runtimeDouble_def filteredRecommendations_def
      keepRecommendation_def or_js_def numericRecommender_def rouletteCandidate_def
      exampleMessage_def formatRecommendations_def trim_def isWhiteSpace_def utf16_def)

text \<open>
  Claim C8. The filter's output is a subsequence of its input, in the input's order: it is
  the input with the candidates the callback rejects left out, and there is an output
  whenever the callback throws on no candidate. Nothing is deduplicated: two candidates
  that each pass are both kept, whatever fields they share.
\<close>

theorem filter_keeps_order_and_duplicates:
  "(filteredRecommendations recommendations = Inr out \<longrightarrow>
      subseq out recommendations
      \<and> out = filter (\<lambda>rec. keepRecommendation rec = Inr True) recommendations)
   \<and> ((\<forall>rec \<in> set recommendations. \<exists>b. keepRecommendation rec = Inr b) \<longrightarrow>
      (\<exists>out. filteredRecommendations recommendations = Inr out))
   \<and> (keepRecommendation a = Inr True \<and> keepRecommendation b = Inr True \<longrightarrow>
      filteredRecommendations [a, b] = Inr [a, b])"
proof (intro conjI impI)
  assume out: "filteredRecommendations recommendations = Inr out"
  then show eq: "out = filter (\<lambda>rec. keepRecommendation rec = Inr True) recommendations"
    unfolding filteredRecommendations_def by (rule filter_js_Inr)
  show "subseq out recommendations"
    unfolding eq by (rule subseq_filter_left)
next
  assume "\<forall>rec \<in> set recommendations. \<exists>b. keepRecommendation rec = Inr b"
  then show "\<exists>out. filteredRecommendations recommendations = Inr out"
    unfolding filteredRecommendations_def by (simp add: filter_js_total)
next
  assume "keepRecommendation a = Inr True \<and> keepRecommendation b = Inr True"
  then show "filteredRecommendations [a, b] = Inr [a, b]"
    by (simp add: filteredRecommendations_def)
qed

lemma keep_samoyed:
  "keepRecommendation samoyedBuy = Inr True" "keepRecommendation samoyedDontBuy = Inr True"
  by (simp_all add: keepRecommendation_def or_js_def samoyedBuy_def samoyedDontBuy_def
      trim_def isWhiteSpace_def utf16_def)

theorem filter_keeps_order_and_duplicates_witness:
  "filteredRecommendations [samoyedBuy, samoyedDontBuy] = Inr [samoyedBuy, samoyedDontBuy]
   \<and> subseq [samoyedBuy, samoyedDontBuy] [samoyedBuy, samoyedDontBuy]
   \<and> (\<exists>out. filteredRecommendations [samoyedBuy, samoyedDontBuy] = Inr out)
   \<and> keepRecommendation samoyedBuy = Inr True \<and> keepRecommendation samoyedDontBuy = Inr True
   \<and> ticker samoyedBuy = ticker samoyedDontBuy
   \<and> contractAddress samoyedBuy = contractAddress samoyedDontBuy
   \<and> recommender samoyedBuy \<noteq> recommender samoyedDontBuy"
proof -
  have kept: "filteredRecommendations [samoyedBuy, samoyedDontBuy] = Inr [samoyedBuy, samoyedDontBuy]"
    using filter_keeps_order_and_duplicates [of "[]" "[]" samoyedBuy samoyedDontBuy] keep_samoyed
    by blast
  have "subseq [samoyedBuy, samoyedDontBuy] [samoyedBuy, samoyedDontBuy]"
    using filter_keeps_order_and_duplicates
      [of "[samoyedBuy, samoyedDontBuy]" "[samoyedBuy, samoyedDontBuy]"] kept
    by blast
  moreover have "\<exists>out. filteredRecommendations [samoyedBuy, samoyedDontBuy] = Inr out"
  proof -
    have "\<forall>rec \<in> set [samoyedBuy, samoyedDontBuy]. \<exists>b. keepRecommendation rec = Inr b"
      using keep_samoyed by auto
    with filter_keeps_order_and_duplicates [of "[samoyedBuy, samoyedDontBuy]"]
    show ?thesis by blast
  qed
  moreover have "ticker samoyedBuy = ticker samoyedDontBuy"
    "contractAddress samoyedBuy = contractAddress samoyedDontBuy"
    by (simp_all add: samoyedBuy_def samoyedDontBuy_def)
  moreover have "recommender samoyedBuy \<noteq> recommender samoyedDontBuy"
    by (simp add: samoyedBuy_def samoyedDontBuy_def utf16_def)
  ultimately show ?thesis using kept keep_samoyed by blast
qed

text \<open>
  Claim C10. The filter does not look at the \<open>type\<close> field: the callback's answer is
  the same whatever that field holds, so a candidate that meets the four predicates is
  kept also when its type is absent or is none of buy, dont_buy, sell, dont_sell.
\<close>

theorem filter_ignores_type:
  "keepRecommendation (rec\<lparr>type' := t\<rparr>) = keepRecommendation rec
   \<and> (recommender rec = JStr s \<and> (\<exists>c \<in> set s. \<not> isWhiteSpace c)
        \<and> \<not> truthy (alreadyKnown rec)
        \<and> (truthy (ticker rec) \<or> truthy (contractAddress rec))
        \<and> truthy (conviction rec) \<longrightarrow>
      filteredRecommendations [rec\<lparr>type' := t\<rparr>] = Inr [rec\<lparr>type' := t\<rparr>])"
proof (intro conjI impI)
  show same: "keepRecommendation (rec\<lparr>type' := t\<rparr>) = keepRecommendation rec"
    by (simp add: keepRecommendation_def)
  assume "recommender rec = JStr s \<and> (\<exists>c \<in> set s. \<not> isWhiteSpace c)
        \<and> \<not> truthy (alreadyKnown rec)
        \<and> (truthy (ticker rec) \<or> truthy (contractAddress rec))
        \<and> truthy (conviction rec)"
  then have "keepRecommendation rec = Inr True"
    by (simp add: keepRecommendation_string)
  then show "filteredRecommendations [rec\<lparr>type' := t\<rparr>] = Inr [rec\<lparr>type' := t\<rparr>]"
    by (simp add: filteredRecommendations_def same)
qed

theorem filter_ignores_type_witness:
  "recommender rouletteCandidate = JStr (utf16 ''user1'')
   \<and> (\<exists>c \<in> set (utf16 ''user1''). \<not> isWhiteSpace c)
   \<and> \<not> truthy (alreadyKnown rouletteCandidate)
   \<and> (truthy (ticker rouletteCandidate) \<or> truthy (contractAddress rouletteCandidate))
   \<and> truthy (conviction rouletteCandidate)
   \<and> filteredRecommendations [rouletteCandidate\<lparr>type' := JUndefined\<rparr>]
       = Inr [rouletteCandidate\<lparr>type' := JUndefined\<rparr>]
   \<and> filteredRecommendations [rouletteCandidate\<lparr>type' := JStr (utf16 ''hodl'')\<rparr>]
       = Inr [rouletteCandidate\<lparr>type' := JStr (utf16 ''hodl'')\<rparr>]"
proof -
  have pre: "recommender rouletteCandidate = JStr (utf16 ''user1'')
      \<and> (\<exists>c \<in> set (utf16 ''user1''). \<not> isWhiteSpace c)
      \<and> \<not> truthy (alreadyKnown rouletteCandidate)
      \<and> (truthy (ticker rouletteCandidate) \<or> truthy (contractAddress rouletteCandidate))
      \<and> truthy (conviction rouletteCandidate)"
    by (simp add: rouletteCandidate_def utf16_def isWhiteSpace_def)
  from filter_ignores_type [where rec = rouletteCandidate and t = JUndefined and s = "utf16 ''user1''"]
    filter_ignores_type [where rec = rouletteCandidate and t = "JStr (utf16 ''hodl'')"
      and s = "utf16 ''user1''"] pre
  show ?thesis by blast
qed

end
